theory Spec2Isabelle
  imports Main
begin

section \<open>The terminal editor service (terminalEditorService.ts)\<close>

text \<open>
  The class \<^verbatim>\<open>TerminalEditorService\<close> keeps the terminal instances that are shown as
  editor tabs. Its fields become one record, every method becomes a function from the
  old record to the new one, and every call that leaves the class (firing an emitter,
  calling a method of an editor input, subscribing to or releasing a listener, asking the
  off-process backend to detach a terminal) is appended to a log kept in the record.
\<close>

subsection \<open>Data of the collaborators\<close>

text \<open>
  A \<^verbatim>\<open>URI\<close>; the service reads only \<^verbatim>\<open>path\<close>.
\<close>

record uri =
  scheme :: string
  path :: string
  fragment :: string

datatype terminal_location = TerminalView | Editor

text \<open>
  An \<^verbatim>\<open>ITerminalInstance\<close> is a mutable object. The field \<open>obj\<close> is the object's
  identity: the source compares instances with \<^verbatim>\<open>===\<close>, which is equality of \<open>obj\<close>.
  The other fields are the properties the service reads or writes.
\<close>

record terminal_instance =
  obj :: nat
  instanceId :: nat
  resource :: uri
  target :: "terminal_location option"

definition same_instance :: "terminal_instance \<Rightarrow> terminal_instance \<Rightarrow> bool" where
  "same_instance e i = (obj e = obj i)"

text \<open>
  The descriptor of a process of the off-process backend, and a
  \<^verbatim>\<open>DeserializedTerminalEditorInput\<close>, which is such a descriptor (it has \<^verbatim>\<open>pid\<close>)
  together with a resource.
\<close>

record process_details =
  pid :: nat

record deserialized_terminal_editor_input = process_details +
  deserialized_resource :: uri

record shell_launch_config =
  attachPersistentProcess :: "process_details option"

record create_terminal_options =
  config :: shell_launch_config
  options_target :: "terminal_location option"

text \<open>
  A \<^verbatim>\<open>TerminalEditorInput\<close>, built from a resource and an instance; \<open>input_obj\<close> is
  the identity of the object, \<open>terminalInstance\<close> is optional as in the source.
\<close>

record terminal_editor_input =
  input_obj :: nat
  input_resource :: uri
  terminalInstance :: "terminal_instance option"


text \<open>The three shapes of the argument of \<^verbatim>\<open>getOrCreateResource\<close>.\<close>

datatype instance_or_uri =
    Instance terminal_instance
  | Deserialized deserialized_terminal_editor_input
  | Uri uri

text \<open>What \<^verbatim>\<open>getOrCreateResource\<close> returns: \<^verbatim>\<open>URI | TerminalEditorInput\<close>.\<close>

datatype resource_or_input =
    ResultUri uri
  | ResultInput terminal_editor_input

datatype error = Error string

text \<open>
  The result of \<^verbatim>\<open>parseTerminalUri\<close>. The source tests \<^verbatim>\<open>instanceId\<close> for truth: an
  absent or NaN \<^verbatim>\<open>instanceId\<close> is \<open>None\<close>, and the number 0 is false as well.
\<close>

record terminal_identifier =
  workspaceId :: string
  identifier_instanceId :: "nat option"

text \<open>The first argument of \<^verbatim>\<open>ITerminalInstanceService.createInstance\<close>.\<close>

datatype launch_argument =
    ShellLaunchConfig shell_launch_config
  | CreateTerminalOptions create_terminal_options

text \<open>
  The functions the service calls and this file does not contain are parameters.
  \<open>createInstance\<close> is \<^verbatim>\<open>_terminalInstanceService.createInstance\<close>; its last argument
  is the number of objects created so far, so that two calls need not return the same
  instance. \<open>parseTerminalUri\<close> and \<open>getTerminalUri\<close> are the functions of
  \<^verbatim>\<open>terminalUri.ts\<close>. All three are taken as functions that return: what they do on an
  argument they reject is not written in this file.
\<close>

record collaborators =
  createInstance ::
    "launch_argument \<Rightarrow> terminal_location option \<Rightarrow> uri option \<Rightarrow> nat \<Rightarrow> terminal_instance"
  parseTerminalUri :: "uri \<Rightarrow> terminal_identifier"
  getTerminalUri :: "string \<Rightarrow> nat \<Rightarrow> string \<Rightarrow> uri"

subsection \<open>The state of the service\<close>

text \<open>
  The two listeners that \<^verbatim>\<open>_registerInstance\<close> installs on an instance, named by the
  identity of the instance.
\<close>

datatype subscription =
    OnDidFocus nat
  | OnDisposed nat

text \<open>Every call that leaves the service, in the order in which it happens.\<close>

datatype event =
    FireDidChangeInstances
  | FireDidChangeActiveInstance "terminal_instance option"
  | Subscribed subscription
  | Disposed subscription
  | InputDetachInstance terminal_editor_input
  | InputDispose terminal_editor_input
  | RequestDetachInstance string nat

record service =
  instances :: "terminal_instance list"
  activeInstanceIndex :: int
  isShuttingDown :: bool
  editorInputs :: "string \<rightharpoonup> terminal_editor_input"
  launchConfigs :: "string \<rightharpoonup> create_terminal_options"
  instanceDisposables :: "string \<rightharpoonup> subscription list"
  trace :: "event list"
  created :: nat

definition initial :: service where
  "initial = \<lparr>instances = [], activeInstanceIndex = - 1, isShuttingDown = False,
     editorInputs = Map.empty, launchConfigs = Map.empty, instanceDisposables = Map.empty,
     trace = [], created = 0\<rparr>"

definition fire :: "event list \<Rightarrow> service \<Rightarrow> service" where
  "fire es s = s\<lparr>trace := trace s @ es\<rparr>"

subsection \<open>JavaScript arrays\<close>

text \<open>\<^verbatim>\<open>Array.prototype.findIndex\<close>: the first position that satisfies the predicate, or -1.\<close>

fun findIndex :: "('a \<Rightarrow> bool) \<Rightarrow> 'a list \<Rightarrow> int" where
  "findIndex p [] = - 1"
| "findIndex p (x # xs) =
     (if p x then 0 else (let i = findIndex p xs in if i = - 1 then - 1 else i + 1))"

text \<open>\<^verbatim>\<open>xs.splice(i, 1)\<close> for an index \<open>i\<close> that is not negative.\<close>

definition splice1 :: "nat \<Rightarrow> 'a list \<Rightarrow> 'a list" where
  "splice1 i xs = take i xs @ drop (Suc i) xs"

text \<open>\<^verbatim>\<open>xs[i]\<close>: \<^verbatim>\<open>undefined\<close> outside the array.\<close>

definition at_index :: "'a list \<Rightarrow> int \<Rightarrow> 'a option" where
  "at_index xs i = (if 0 \<le> i \<and> i < int (length xs) then Some (xs ! nat i) else None)"

subsection \<open>The active instance\<close>

definition activeInstance :: "service \<Rightarrow> terminal_instance option" where
  "activeInstance s =
     (if length (instances s) = 0 \<or> activeInstanceIndex s = - 1 then None
      else at_index (instances s) (activeInstanceIndex s))"

definition setActiveInstance_private :: "service \<Rightarrow> terminal_instance option \<Rightarrow> service" where
  "setActiveInstance_private s instance =
     (let s1 = (case instance of
                  None \<Rightarrow> s\<lparr>activeInstanceIndex := - 1\<rparr>
                | Some i \<Rightarrow>
                    s\<lparr>activeInstanceIndex := findIndex (\<lambda>e. same_instance e i) (instances s)\<rparr>)
      in fire [FireDidChangeActiveInstance (activeInstance s1)] s1)"

definition setActiveInstance :: "service \<Rightarrow> terminal_instance \<Rightarrow> service" where
  "setActiveInstance s instance = setActiveInstance_private s (Some instance)"

subsection \<open>Registering and resolving\<close>

text \<open>
  \<open>registerInstance\<close> is \<^verbatim>\<open>_registerInstance\<close> and \<open>setActiveInstance_private\<close> is
  \<^verbatim>\<open>_setActiveInstance\<close>: a name cannot begin with an underscore here.
\<close>

definition registerInstance ::
  "service \<Rightarrow> string \<Rightarrow> terminal_editor_input \<Rightarrow> terminal_instance \<Rightarrow> service" where
  "registerInstance s inputKey input instance =
     (let subs = [OnDidFocus (obj instance), OnDisposed (obj instance)]
      in fire (map Subscribed subs @ [FireDidChangeInstances])
           (s\<lparr>editorInputs := (editorInputs s)(inputKey \<mapsto> input),
              instanceDisposables := (instanceDisposables s)(inputKey \<mapsto> subs),
              instances := instances s @ [instance]\<rparr>))"

text \<open>
  \<^verbatim>\<open>_instantiationService.createInstance(TerminalEditorInput, resource, instance)\<close>: a new
  object, numbered by the count of objects created so far.
\<close>

definition newTerminalEditorInput ::
  "service \<Rightarrow> uri \<Rightarrow> terminal_instance \<Rightarrow> service \<times> terminal_editor_input" where
  "newTerminalEditorInput s r instance =
     (s\<lparr>created := Suc (created s)\<rparr>,
      \<lparr>input_obj = created s, input_resource = r, terminalInstance = Some instance\<rparr>)"

definition newInstance ::
  "collaborators \<Rightarrow> service \<Rightarrow> launch_argument \<Rightarrow> terminal_location option \<Rightarrow> uri option
     \<Rightarrow> service \<times> terminal_instance" where
  "newInstance env s arg loc r =
     (s\<lparr>created := Suc (created s)\<rparr>, createInstance env arg loc r (created s))"

definition resourceOf :: "instance_or_uri \<Rightarrow> uri" where
  "resourceOf instanceOrUri =
     (case instanceOrUri of
        Uri u \<Rightarrow> u
      | Instance i \<Rightarrow> resource i
      | Deserialized d \<Rightarrow> deserialized_resource d)"

definition inputKeyOf :: "instance_or_uri \<Rightarrow> string" where
  "inputKeyOf instanceOrUri = path (resourceOf instanceOrUri)"

text \<open>The branch \<^verbatim>\<open>'instanceId' in instanceOrUri\<close> of \<^verbatim>\<open>getOrCreateResource\<close>.\<close>

definition attachInstance ::
  "service \<Rightarrow> uri \<Rightarrow> terminal_instance \<Rightarrow> service \<times> resource_or_input" where
  "attachInstance s r instance =
     (let instance1 = instance\<lparr>target := Some Editor\<rparr>;
          (s1, input) = newTerminalEditorInput s r instance1
      in (registerInstance s1 (path r) input instance1, ResultInput input))"

definition getOrCreateResource ::
  "collaborators \<Rightarrow> service \<Rightarrow> instance_or_uri \<Rightarrow> service \<times> resource_or_input" where
  "getOrCreateResource env s instanceOrUri =
     (let r = resourceOf instanceOrUri; inputKey = path r
      in case editorInputs s inputKey of
           Some cachedEditor \<Rightarrow> (s, ResultInput cachedEditor)
         | None \<Rightarrow>
             (case instanceOrUri of
                Deserialized d \<Rightarrow>
                  (let (s1, instance) =
                         newInstance env s
                           (ShellLaunchConfig
                              \<lparr>attachPersistentProcess = Some (process_details.truncate d)\<rparr>)
                           (Some Editor) None
                   in attachInstance s1 r instance)
              | Uri u \<Rightarrow>
                  (let terminalIdentifier = parseTerminalUri env u;
                       s1 = (case identifier_instanceId terminalIdentifier of
                               None \<Rightarrow> s
                             | Some n \<Rightarrow>
                                 if n \<noteq> 0
                                 then fire [RequestDetachInstance
                                              (workspaceId terminalIdentifier) n] s
                                 else s)
                   in (s1, ResultUri (getTerminalUri env ''dfsldjfkdslfsjdflksdjf'' 2 ''fake'')))
              | Instance i \<Rightarrow> attachInstance s r i))"

text \<open>
  The continuation of the promise of \<^verbatim>\<open>requestDetachInstance\<close>, which runs later, when
  the backend has answered for the key \<open>inputKey\<close>.
\<close>

definition requestDetachInstance_then ::
  "service \<Rightarrow> string \<Rightarrow> process_details option \<Rightarrow> service" where
  "requestDetachInstance_then s inputKey answer =
     s\<lparr>launchConfigs := (launchConfigs s)(inputKey \<mapsto>
          \<lparr>config = \<lparr>attachPersistentProcess = answer\<rparr>, options_target = Some Editor\<rparr>)\<rparr>"

definition resolveResource ::
  "collaborators \<Rightarrow> service \<Rightarrow> uri \<Rightarrow> service \<times> (error + terminal_editor_input)" where
  "resolveResource env s r =
     (case launchConfigs s (path r) of
        Some launchConfig \<Rightarrow>
          (let (s1, instance) =
                 newInstance env s (CreateTerminalOptions launchConfig)
                   (options_target launchConfig) (Some r);
               (s2, input) = newTerminalEditorInput s1 r instance
           in (registerInstance s2 (path r) input instance, Inr input))
      | None \<Rightarrow> (s, Inl (Error ''could not resolve resource'')))"


subsection \<open>Detaching\<close>

definition detachInstance :: "service \<Rightarrow> terminal_instance \<Rightarrow> service" where
  "detachInstance s instance =
     (let inputKey = path (resource instance);
          editorInput = editorInputs s inputKey;
          s1 = fire (case editorInput of None \<Rightarrow> [] | Some i \<Rightarrow> [InputDetachInstance i]) s;
          s2 = s1\<lparr>editorInputs := (editorInputs s1)(inputKey := None)\<rparr>;
          instanceIndex = findIndex (\<lambda>e. same_instance e instance) (instances s2);
          s3 = (if instanceIndex \<noteq> - 1
                then s2\<lparr>instances := splice1 (nat instanceIndex) (instances s2)\<rparr> else s2);
          s4 = (if \<not> isShuttingDown s3
                then fire (case editorInput of None \<Rightarrow> [] | Some i \<Rightarrow> [InputDispose i]) s3
                else s3);
          disposables = instanceDisposables s4 inputKey;
          s5 = s4\<lparr>instanceDisposables := (instanceDisposables s4)(inputKey := None)\<rparr>;
          s6 = (case disposables of None \<Rightarrow> s5 | Some ds \<Rightarrow> fire (map Disposed ds) s5)
      in fire [FireDidChangeInstances] s6)"

subsection \<open>The handlers that the constructor installs\<close>






text \<open>The handler of \<^verbatim>\<open>onDidDisposeInstance\<close> is \<^verbatim>\<open>detachInstance\<close> itself.\<close>

subsection \<open>Concrete collaborators and states\<close>

text \<open>
  A session factory that numbers its instances and keeps the resource it is given, a parser
  that knows one terminal of another window, and a few states reached from the initial one.
  They are the inputs at which the theorems below are evaluated.
\<close>

fun decimal :: "nat \<Rightarrow> string" where
  "decimal n =
     (if n < 10 then [''0123456789'' ! n] else decimal (n div 10) @ [''0123456789'' ! (n mod 10)])"

definition example_uri :: "string \<Rightarrow> uri" where
  "example_uri p = \<lparr>scheme = ''vscode-terminal'', path = p, fragment = ''''\<rparr>"

definition example_collaborators :: collaborators where
  "example_collaborators =
     \<lparr>createInstance = (\<lambda>arg loc r n.
        \<lparr>obj = n, instanceId = Suc n,
         resource = (case r of None \<Rightarrow> example_uri (''/w/'' @ decimal (Suc n)) | Some u \<Rightarrow> u),
         target = loc\<rparr>),
      parseTerminalUri = (\<lambda>u.
        \<lparr>workspaceId = ''w'',
         identifier_instanceId = (if path u = ''/w/5'' then Some 5 else None)\<rparr>),
      getTerminalUri = (\<lambda>w n t.
        \<lparr>scheme = ''vscode-terminal'', path = ''/'' @ w @ ''/'' @ decimal n, fragment = t\<rparr>)\<rparr>"

definition example_instance :: "nat \<Rightarrow> string \<Rightarrow> terminal_instance" where
  "example_instance n p =
     \<lparr>obj = n, instanceId = n, resource = example_uri p, target = Some Editor\<rparr>"

definition example_input :: "nat \<Rightarrow> terminal_instance \<Rightarrow> terminal_editor_input" where
  "example_input n i =
     \<lparr>input_obj = n, input_resource = resource i, terminalInstance = Some i\<rparr>"

definition one_registered :: service where
  "one_registered =
     fst (getOrCreateResource example_collaborators initial
            (Instance (example_instance 101 ''/w/101'')))"

definition two_registered :: service where
  "two_registered =
     fst (getOrCreateResource example_collaborators one_registered
            (Instance (example_instance 102 ''/w/102'')))"

definition active_first :: service where
  "active_first = setActiveInstance two_registered (example_instance 101 ''/w/101'')"



definition deferred :: service where
  "deferred =
     requestDetachInstance_then
       (fst (getOrCreateResource example_collaborators initial (Uri (example_uri ''/w/5''))))
       ''/w/5'' (Some \<lparr>pid = 42\<rparr>)"

definition resolved_once :: service where
  "resolved_once = fst (resolveResource example_collaborators deferred (example_uri ''/w/5''))"

definition resolved_twice :: service where
  "resolved_twice =
     fst (resolveResource example_collaborators resolved_once (example_uri ''/w/5''))"

section \<open>Properties\<close>

subsection \<open>Arrays\<close>

lemma findIndex_lower: "- 1 \<le> findIndex p xs"
  by (induction xs) (auto simp: Let_def)

lemma findIndex_upper: "findIndex p xs < int (length xs)"
  by (induction xs) (auto simp: Let_def)

lemma findIndex_none: "(findIndex p xs = - 1) = (\<not> list_ex p xs)"
proof (induction xs)
  case Nil
  show ?case by simp
next
  case (Cons x xs)
  have "- 1 \<le> findIndex p xs" by (rule findIndex_lower)
  with Cons show ?case by (auto simp: Let_def)
qed

lemma findIndex_find:
  "(if findIndex p xs = - 1 then None else at_index xs (findIndex p xs)) = find p xs"
proof (induction xs)
  case Nil
  show ?case by simp
next
  case (Cons x xs)
  have lo: "- 1 \<le> findIndex p xs" by (rule findIndex_lower)
  have up: "findIndex p xs < int (length xs)" by (rule findIndex_upper)
  show ?case
  proof (cases "p x")
    case True
    then show ?thesis by (simp add: at_index_def)
  next
    case False
    show ?thesis
    proof (cases "findIndex p xs = - 1")
      case True
      with Cons False show ?thesis by (simp add: Let_def)
    next
      case nf: False
      with lo have ge: "0 \<le> findIndex p xs" by arith
      then have "nat (findIndex p xs + 1) = Suc (nat (findIndex p xs))" by arith
      with Cons False nf ge up show ?thesis
        by (simp add: Let_def at_index_def)
    qed
  qed
qed





lemma at_index_splice1:
  "n < length xs \<Longrightarrow> at_index (splice1 n xs) (int n) = at_index xs (int n + 1)"
  by (auto simp: at_index_def splice1_def nth_append nat_add_distrib)


subsection \<open>The operations, field by field\<close>

lemma activeInstance_setActive:
  "activeInstance (s\<lparr>activeInstanceIndex := findIndex p (instances s)\<rparr>) = find p (instances s)"
proof -
  have "instances s = [] \<Longrightarrow> findIndex p (instances s) = - 1" by simp
  then have "activeInstance (s\<lparr>activeInstanceIndex := findIndex p (instances s)\<rparr>)
      = (if findIndex p (instances s) = - 1 then None
         else at_index (instances s) (findIndex p (instances s)))"
    by (auto simp: activeInstance_def)
  then show ?thesis by (simp only: findIndex_find)
qed

lemmas example_defs = example_uri_def example_collaborators_def example_instance_def
  example_input_def initial_def

lemmas service_defs = getOrCreateResource_def attachInstance_def newTerminalEditorInput_def
  newInstance_def registerInstance_def fire_def resourceOf_def inputKeyOf_def Let_def









lemma detachInstance_fields:
  "editorInputs (detachInstance s i) = (editorInputs s)(path (resource i) := None)"
  "instanceDisposables (detachInstance s i) = (instanceDisposables s)(path (resource i) := None)"
  "instances (detachInstance s i)
     = (if findIndex (\<lambda>e. same_instance e i) (instances s) \<noteq> - 1
        then splice1 (nat (findIndex (\<lambda>e. same_instance e i) (instances s))) (instances s)
        else instances s)"
  "trace (detachInstance s i)
     = trace s
       @ (case editorInputs s (path (resource i)) of None \<Rightarrow> [] | Some e \<Rightarrow> [InputDetachInstance e])
       @ (if isShuttingDown s then []
          else (case editorInputs s (path (resource i)) of None \<Rightarrow> [] | Some e \<Rightarrow> [InputDispose e]))
       @ (case instanceDisposables s (path (resource i)) of None \<Rightarrow> [] | Some ds \<Rightarrow> map Disposed ds)
       @ [FireDidChangeInstances]"
  "activeInstanceIndex (detachInstance s i) = activeInstanceIndex s"
  "isShuttingDown (detachInstance s i) = isShuttingDown s"
  "launchConfigs (detachInstance s i) = launchConfigs s"
  "created (detachInstance s i) = created s"
  by (simp_all add: detachInstance_def fire_def Let_def split: option.splits)


subsection \<open>The concrete states, evaluated\<close>

lemma one_registered_eq:
  "one_registered =
     \<lparr>instances = [example_instance 101 ''/w/101''], activeInstanceIndex = - 1,
      isShuttingDown = False,
      editorInputs = [''/w/101'' \<mapsto> example_input 0 (example_instance 101 ''/w/101'')],
      launchConfigs = Map.empty,
      instanceDisposables = [''/w/101'' \<mapsto> [OnDidFocus 101, OnDisposed 101]],
      trace = [Subscribed (OnDidFocus 101), Subscribed (OnDisposed 101), FireDidChangeInstances],
      created = 1\<rparr>"
  by (simp add: one_registered_def example_defs service_defs)

lemma two_registered_eq:
  "two_registered =
     \<lparr>instances = [example_instance 101 ''/w/101'', example_instance 102 ''/w/102''],
      activeInstanceIndex = - 1, isShuttingDown = False,
      editorInputs = [''/w/101'' \<mapsto> example_input 0 (example_instance 101 ''/w/101''),
                      ''/w/102'' \<mapsto> example_input 1 (example_instance 102 ''/w/102'')],
      launchConfigs = Map.empty,
      instanceDisposables = [''/w/101'' \<mapsto> [OnDidFocus 101, OnDisposed 101],
                             ''/w/102'' \<mapsto> [OnDidFocus 102, OnDisposed 102]],
      trace = [Subscribed (OnDidFocus 101), Subscribed (OnDisposed 101), FireDidChangeInstances,
               Subscribed (OnDidFocus 102), Subscribed (OnDisposed 102), FireDidChangeInstances],
      created = 2\<rparr>"
  by (simp add: two_registered_def one_registered_eq)
     (simp add: example_defs service_defs)

lemma active_first_fields:
  "instances active_first = [example_instance 101 ''/w/101'', example_instance 102 ''/w/102'']"
  "activeInstanceIndex active_first = 0"
  by (simp_all add: active_first_def two_registered_eq setActiveInstance_def
      setActiveInstance_private_def fire_def Let_def same_instance_def example_instance_def)

lemma deferred_eq:
  "deferred =
     \<lparr>instances = [], activeInstanceIndex = - 1, isShuttingDown = False,
      editorInputs = Map.empty,
      launchConfigs = [''/w/5'' \<mapsto>
        \<lparr>config = \<lparr>attachPersistentProcess = Some \<lparr>pid = 42\<rparr>\<rparr>, options_target = Some Editor\<rparr>],
      instanceDisposables = Map.empty,
      trace = [RequestDetachInstance ''w'' 5], created = 0\<rparr>"
  by (simp add: deferred_def requestDetachInstance_then_def getOrCreateResource_def
      resourceOf_def fire_def Let_def example_collaborators_def example_uri_def initial_def)

lemma resolved_once_eq:
  "resolved_once =
     \<lparr>instances = [\<lparr>obj = 0, instanceId = 1, resource = example_uri ''/w/5'',
                    target = Some Editor\<rparr>],
      activeInstanceIndex = - 1, isShuttingDown = False,
      editorInputs = [''/w/5'' \<mapsto>
        \<lparr>input_obj = 1, input_resource = example_uri ''/w/5'',
         terminalInstance = Some \<lparr>obj = 0, instanceId = 1, resource = example_uri ''/w/5'',
                                  target = Some Editor\<rparr>\<rparr>],
      launchConfigs = [''/w/5'' \<mapsto>
        \<lparr>config = \<lparr>attachPersistentProcess = Some \<lparr>pid = 42\<rparr>\<rparr>, options_target = Some Editor\<rparr>],
      instanceDisposables = [''/w/5'' \<mapsto> [OnDidFocus 0, OnDisposed 0]],
      trace = [RequestDetachInstance ''w'' 5, Subscribed (OnDidFocus 0),
               Subscribed (OnDisposed 0), FireDidChangeInstances],
      created = 2\<rparr>"
  by (simp add: resolved_once_def deferred_eq resolveResource_def newInstance_def
      newTerminalEditorInput_def registerInstance_def fire_def Let_def)
     (simp add: example_collaborators_def example_uri_def)

subsection \<open>C1: the cache of editor inputs\<close>



subsection \<open>C2: the active instance after a detach\<close>

text \<open>
  C2, as the code has it. \<^verbatim>\<open>activeInstance\<close> is absent or the element of the live list at the
  stored index. \<^verbatim>\<open>detachInstance\<close> never writes the stored index: when the instance it
  removes sits at the stored index, \<^verbatim>\<open>activeInstance\<close> afterwards is the element that
  followed it in the list, and it is absent only when there was no such element.
\<close>

theorem detachInstance_keeps_active_index:
  "(activeInstance s = None
      \<or> (0 \<le> activeInstanceIndex s \<and> activeInstanceIndex s < int (length (instances s))
          \<and> activeInstance s = Some (instances s ! nat (activeInstanceIndex s))))
   \<and> activeInstanceIndex (detachInstance s i) = activeInstanceIndex s
   \<and> (activeInstanceIndex s = findIndex (\<lambda>e. same_instance e i) (instances s)
        \<and> activeInstanceIndex s \<noteq> - 1
      \<longrightarrow> activeInstance (detachInstance s i)
            = at_index (instances s) (activeInstanceIndex s + 1))"
proof -
  let ?p = "\<lambda>e. same_instance e i"
  let ?k = "findIndex ?p (instances s)"
  have a: "activeInstance s = None
      \<or> (0 \<le> activeInstanceIndex s \<and> activeInstanceIndex s < int (length (instances s))
          \<and> activeInstance s = Some (instances s ! nat (activeInstanceIndex s)))"
    by (simp add: activeInstance_def at_index_def)
  have b: "activeInstanceIndex (detachInstance s i) = activeInstanceIndex s"
    by (simp add: detachInstance_fields)
  have c: "activeInstance (detachInstance s i) = at_index (instances s) (activeInstanceIndex s + 1)"
    if eq: "activeInstanceIndex s = ?k" and found: "activeInstanceIndex s \<noteq> - 1"
  proof -
    have lo: "- 1 \<le> ?k" by (rule findIndex_lower)
    have up: "?k < int (length (instances s))" by (rule findIndex_upper)
    from lo eq found have ge: "0 \<le> ?k" by arith
    with up have n: "nat ?k < length (instances s)" by arith
    from ge have k: "int (nat ?k) = ?k" by simp
    have inst: "instances (detachInstance s i) = splice1 (nat ?k) (instances s)"
      using eq found by (simp add: detachInstance_fields)
    have "activeInstance (detachInstance s i) = at_index (splice1 (nat ?k) (instances s)) ?k"
      using eq found by (auto simp: activeInstance_def b inst at_index_def)
    also have "\<dots> = at_index (instances s) (?k + 1)"
      using at_index_splice1 [OF n] by (simp only: k)
    finally show ?thesis by (simp only: eq)
  qed
  from a b c show ?thesis by blast
qed

text \<open>
  Instances 101 and 102 are registered and 101 is made active; detaching 101 leaves the index
  at 0, where 102 now is.
\<close>

theorem detachInstance_keeps_active_index_witness:
  "activeInstanceIndex active_first
     = findIndex (\<lambda>e. same_instance e (example_instance 101 ''/w/101'')) (instances active_first)
   \<and> activeInstanceIndex active_first \<noteq> - 1
   \<and> activeInstanceIndex (detachInstance active_first (example_instance 101 ''/w/101'')) = 0
   \<and> activeInstance (detachInstance active_first (example_instance 101 ''/w/101''))
       = Some (example_instance 102 ''/w/102'')"
proof -
  have h: "activeInstanceIndex active_first
     = findIndex (\<lambda>e. same_instance e (example_instance 101 ''/w/101'')) (instances active_first)
     \<and> activeInstanceIndex active_first \<noteq> - 1"
    by (simp add: active_first_fields same_instance_def)
  have v: "at_index (instances active_first) (activeInstanceIndex active_first + 1)
      = Some (example_instance 102 ''/w/102'')"
    by (simp add: active_first_fields at_index_def)
  from detachInstance_keeps_active_index [of active_first "example_instance 101 ''/w/101''"] h v
  show ?thesis by (simp add: active_first_fields)
qed

text \<open>
  C2 as stated asks for an absent active instance and the index -1 after the active instance
  has been detached. In the state above the detach of the active instance 101 leaves the index
  0 and makes instance 102 the active one.
\<close>

theorem detachInstance_active_counterexample:
  "activeInstance active_first = Some (example_instance 101 ''/w/101'')
   \<and> instances (detachInstance active_first (example_instance 101 ''/w/101''))
       = [example_instance 102 ''/w/102'']
   \<and> activeInstance (detachInstance active_first (example_instance 101 ''/w/101''))
       = Some (example_instance 102 ''/w/102'')
   \<and> activeInstanceIndex (detachInstance active_first (example_instance 101 ''/w/101'')) = 0"
  by (simp add: activeInstance_def detachInstance_fields active_first_fields at_index_def
      same_instance_def splice1_def)

subsection \<open>C3: closing an editor\<close>




subsection \<open>C4: two resolutions of one resource\<close>

text \<open>
  C4, evaluated. A URI of another window is asked for, the backend answers and the launch
  configuration is stored; \<^verbatim>\<open>resolveResource\<close> is then called twice for that URI. Each call
  creates an instance and an editor input and registers them under the same key: the live list
  ends with two instances of the same resource path, the second editor input has replaced the
  first in the map, the subscriptions of the first instance are no longer in the map of
  subscriptions, and list-changed has fired twice.
\<close>

theorem resolveResource_twice_duplicates:
  "map (\<lambda>i. (obj i, path (resource i))) (instances resolved_twice)
     = [(0, ''/w/5''), (2, ''/w/5'')]
   \<and> map_option input_obj (editorInputs resolved_once ''/w/5'') = Some 1
   \<and> map_option input_obj (editorInputs resolved_twice ''/w/5'') = Some 3
   \<and> instanceDisposables resolved_twice ''/w/5'' = Some [OnDidFocus 2, OnDisposed 2]
   \<and> count_list (trace resolved_twice) FireDidChangeInstances = 2"
  by (simp add: resolved_twice_def resolved_once_eq resolveResource_def newInstance_def
      newTerminalEditorInput_def registerInstance_def fire_def Let_def)
     (simp add: example_collaborators_def example_uri_def)

subsection \<open>C5: detaching an instance that is not managed\<close>

text \<open>
  C5, as the code has it. When neither map has the key of the instance and the instance is
  not in the live list, \<^verbatim>\<open>detachInstance\<close> changes no field of the service and calls no
  editor input and no subscription, but it does fire list-changed once: the new state is the
  old one with that single notification appended to the log.
\<close>

theorem detachInstance_unmanaged_fires:
  assumes "editorInputs s (path (resource i)) = None"
    and "instanceDisposables s (path (resource i)) = None"
    and "\<not> list_ex (\<lambda>e. same_instance e i) (instances s)"
  shows "detachInstance s i = s\<lparr>trace := trace s @ [FireDidChangeInstances]\<rparr>"
proof -
  from assms(3) have nf: "findIndex (\<lambda>e. same_instance e i) (instances s) = - 1"
    by (simp add: findIndex_none)
  from assms(1) have m1: "(editorInputs s)(path (resource i) := None) = editorInputs s"
    by (simp add: fun_upd_idem)
  from assms(2) have m2:
    "(instanceDisposables s)(path (resource i) := None) = instanceDisposables s"
    by (simp add: fun_upd_idem)
  show ?thesis
    using assms(1,2) nf m1 m2 by (simp add: detachInstance_def fire_def Let_def)
qed

text \<open>
  Instance 102 is unknown to the state in which only instance 101 is registered.
\<close>

theorem detachInstance_unmanaged_fires_witness:
  "editorInputs one_registered (path (resource (example_instance 102 ''/w/102''))) = None
   \<and> instanceDisposables one_registered (path (resource (example_instance 102 ''/w/102''))) = None
   \<and> \<not> list_ex (\<lambda>e. same_instance e (example_instance 102 ''/w/102'')) (instances one_registered)
   \<and> detachInstance one_registered (example_instance 102 ''/w/102'')
       = one_registered\<lparr>trace := trace one_registered @ [FireDidChangeInstances]\<rparr>"
proof -
  have h1: "editorInputs one_registered (path (resource (example_instance 102 ''/w/102''))) = None"
    by (simp add: one_registered_eq example_instance_def example_uri_def)
  have h2: "instanceDisposables one_registered (path (resource (example_instance 102 ''/w/102'')))
      = None"
    by (simp add: one_registered_eq example_instance_def example_uri_def)
  have h3: "\<not> list_ex (\<lambda>e. same_instance e (example_instance 102 ''/w/102''))
      (instances one_registered)"
    by (simp add: one_registered_eq example_instance_def same_instance_def)
  from detachInstance_unmanaged_fires [OF h1 h2 h3] h1 h2 h3 show ?thesis by blast
qed

text \<open>
  C5 as stated says that no notification is fired. In the initial state, where nothing is
  managed, detaching instance 101 fires list-changed.
\<close>

theorem detachInstance_unmanaged_counterexample:
  "editorInputs initial (path (resource (example_instance 101 ''/w/101''))) = None
   \<and> instanceDisposables initial (path (resource (example_instance 101 ''/w/101''))) = None
   \<and> instances initial = []
   \<and> trace initial = []
   \<and> trace (detachInstance initial (example_instance 101 ''/w/101'')) = [FireDidChangeInstances]"
  by (simp add: detachInstance_fields) (simp add: initial_def)

subsection \<open>C6: the placeholder\<close>

text \<open>
  C6. When \<^verbatim>\<open>getOrCreateResource\<close> is given a URI and no editor input is cached under its
  path, it returns the URI that \<^verbatim>\<open>getTerminalUri\<close> builds from the fixed workspace id, the
  instance id 2 and the title \<^verbatim>\<open>fake\<close>. The function has no failing result. Nothing is
  registered: the live list and the three maps are unchanged.
\<close>

theorem getOrCreateResource_placeholder:
  "editorInputs s (path u) = None \<Longrightarrow>
     snd (getOrCreateResource env s (Uri u))
       = ResultUri (getTerminalUri env ''dfsldjfkdslfsjdflksdjf'' 2 ''fake'')
     \<and> instances (fst (getOrCreateResource env s (Uri u))) = instances s
     \<and> editorInputs (fst (getOrCreateResource env s (Uri u))) = editorInputs s
     \<and> instanceDisposables (fst (getOrCreateResource env s (Uri u))) = instanceDisposables s
     \<and> launchConfigs (fst (getOrCreateResource env s (Uri u))) = launchConfigs s"
  by (simp add: getOrCreateResource_def resourceOf_def fire_def Let_def split: option.splits)

text \<open>
  The URI of terminal 5 of another window: the detach request is logged and the placeholder
  comes back.
\<close>

theorem getOrCreateResource_placeholder_witness:
  "editorInputs one_registered (path (example_uri ''/w/5'')) = None
   \<and> getOrCreateResource example_collaborators one_registered (Uri (example_uri ''/w/5''))
       = (one_registered\<lparr>trace := trace one_registered @ [RequestDetachInstance ''w'' 5]\<rparr>,
          ResultUri \<lparr>scheme = ''vscode-terminal'', path = ''/dfsldjfkdslfsjdflksdjf/2'',
                     fragment = ''fake''\<rparr>)
   \<and> instances (fst (getOrCreateResource example_collaborators one_registered
                      (Uri (example_uri ''/w/5'')))) = instances one_registered"
proof -
  have h: "editorInputs one_registered (path (example_uri ''/w/5'')) = None"
    by (simp add: one_registered_eq example_uri_def)
  have v: "getOrCreateResource example_collaborators one_registered (Uri (example_uri ''/w/5''))
       = (one_registered\<lparr>trace := trace one_registered @ [RequestDetachInstance ''w'' 5]\<rparr>,
          ResultUri \<lparr>scheme = ''vscode-terminal'', path = ''/dfsldjfkdslfsjdflksdjf/2'',
                     fragment = ''fake''\<rparr>)"
    using h by (simp add: getOrCreateResource_def resourceOf_def fire_def Let_def
        example_collaborators_def example_uri_def)
  from getOrCreateResource_placeholder [OF h, of example_collaborators] h v
  show ?thesis by simp
qed

subsection \<open>C7: detaching while shutting down\<close>



subsection \<open>C8: resolving an unknown resource\<close>

text \<open>
  C8. When no launch configuration is stored under the path of the resource,
  \<^verbatim>\<open>resolveResource\<close> throws \<^verbatim>\<open>could not resolve resource\<close> and the state is the one of
  before the call. This holds whether or not an editor input is cached under the path.
\<close>

theorem resolveResource_unresolved:
  "launchConfigs s (path r) = None \<Longrightarrow>
     resolveResource env s r = (s, Inl (Error ''could not resolve resource''))"
  by (simp add: resolveResource_def)

text \<open>
  No launch configuration is stored in the state with one registered instance: a resource
  without a cached input fails, and so does the resource of the registered instance.
\<close>

theorem resolveResource_unresolved_witness:
  "launchConfigs one_registered (path (example_uri ''/w/101'')) = None
   \<and> editorInputs one_registered (path (example_uri ''/w/9'')) = None
   \<and> resolveResource example_collaborators one_registered (example_uri ''/w/101'')
       = (one_registered, Inl (Error ''could not resolve resource''))
   \<and> resolveResource example_collaborators one_registered (example_uri ''/w/9'')
       = (one_registered, Inl (Error ''could not resolve resource''))"
proof -
  have h1: "launchConfigs one_registered (path (example_uri ''/w/101'')) = None"
    by (simp add: one_registered_eq)
  have h2: "launchConfigs one_registered (path (example_uri ''/w/9'')) = None"
    by (simp add: one_registered_eq)
  have e: "editorInputs one_registered (path (example_uri ''/w/9'')) = None"
    by (simp add: one_registered_eq example_uri_def)
  from resolveResource_unresolved [OF h1, of example_collaborators]
    resolveResource_unresolved [OF h2, of example_collaborators] h1 e
  show ?thesis by blast
qed

subsection \<open>C9: setting the active instance\<close>

text \<open>
  C9. \<^verbatim>\<open>setActiveInstance\<close> stores the position that \<^verbatim>\<open>findIndex\<close> finds for the given
  instance in the live list, which is -1 exactly when no element of the list is that instance.
  Afterwards \<^verbatim>\<open>activeInstance\<close> is the first element of the list that is the instance, and
  absent when there is none. The call appends one active-changed notification, which carries
  this value of \<^verbatim>\<open>activeInstance\<close>. The live list is not changed.
\<close>

theorem setActiveInstance_search:
  "activeInstanceIndex (setActiveInstance s i) = findIndex (\<lambda>e. same_instance e i) (instances s)
   \<and> (activeInstanceIndex (setActiveInstance s i) = - 1)
       = (\<not> list_ex (\<lambda>e. same_instance e i) (instances s))
   \<and> activeInstance (setActiveInstance s i) = find (\<lambda>e. same_instance e i) (instances s)
   \<and> trace (setActiveInstance s i)
       = trace s @ [FireDidChangeActiveInstance (activeInstance (setActiveInstance s i))]
   \<and> instances (setActiveInstance s i) = instances s"
proof -
  let ?p = "\<lambda>e. same_instance e i"
  let ?s1 = "s\<lparr>activeInstanceIndex := findIndex ?p (instances s)\<rparr>"
  have eq: "setActiveInstance s i = fire [FireDidChangeActiveInstance (activeInstance ?s1)] ?s1"
    by (simp add: setActiveInstance_def setActiveInstance_private_def Let_def)
  have act: "activeInstance (setActiveInstance s i) = activeInstance ?s1"
    by (simp add: eq fire_def activeInstance_def)
  have a1: "activeInstance ?s1 = find ?p (instances s)" by (rule activeInstance_setActive)
  show ?thesis
    using findIndex_none [of ?p "instances s"] act a1
    by (simp add: eq fire_def)
qed

text \<open>
  With instances 101 and 102 in the list, instance 102 is found at index 1 and instance 103 is
  not found.
\<close>

theorem setActiveInstance_search_witness:
  "activeInstanceIndex (setActiveInstance two_registered (example_instance 102 ''/w/102'')) = 1
   \<and> activeInstance (setActiveInstance two_registered (example_instance 102 ''/w/102''))
       = Some (example_instance 102 ''/w/102'')
   \<and> trace (setActiveInstance two_registered (example_instance 102 ''/w/102''))
       = trace two_registered
         @ [FireDidChangeActiveInstance (Some (example_instance 102 ''/w/102''))]
   \<and> activeInstanceIndex (setActiveInstance two_registered (example_instance 103 ''/w/103'')) = - 1
   \<and> activeInstance (setActiveInstance two_registered (example_instance 103 ''/w/103'')) = None
   \<and> trace (setActiveInstance two_registered (example_instance 103 ''/w/103''))
       = trace two_registered @ [FireDidChangeActiveInstance None]"
proof -
  have i: "instances two_registered
      = [example_instance 101 ''/w/101'', example_instance 102 ''/w/102'']"
    by (simp add: two_registered_eq)
  have f2: "findIndex (\<lambda>e. same_instance e (example_instance 102 ''/w/102''))
      (instances two_registered) = 1"
    unfolding i by (simp add: same_instance_def example_instance_def)
  have g2: "find (\<lambda>e. same_instance e (example_instance 102 ''/w/102''))
      (instances two_registered) = Some (example_instance 102 ''/w/102'')"
    unfolding i by (simp add: same_instance_def example_instance_def)
  have f3: "findIndex (\<lambda>e. same_instance e (example_instance 103 ''/w/103''))
      (instances two_registered) = - 1"
    unfolding i by (simp add: same_instance_def example_instance_def)
  have g3: "find (\<lambda>e. same_instance e (example_instance 103 ''/w/103''))
      (instances two_registered) = None"
    unfolding i by (simp add: same_instance_def example_instance_def)
  from setActiveInstance_search [of two_registered "example_instance 102 ''/w/102''"]
    setActiveInstance_search [of two_registered "example_instance 103 ''/w/103''"]
    f2 g2 f3 g3
  show ?thesis by simp
qed

subsection \<open>C10: adopting a visible terminal editor\<close>



end
